theory Spec2Isabelle
  imports Complex_Main "HOL-Library.Word"
begin

unbundle bit_operations_syntax

section \<open>Fatal failures\<close>

text \<open>
  Every failure of the render-hardware-interface is fatal: the process ends with a
  diagnostic. A function that can fail returns \<open>fatal + 'a\<close>, \<open>Inl\<close> carrying the
  diagnostic. \<open>Assertion_Failed\<close> carries the asserted expression (\<open>SP_ASSERT\<close>) or the
  message (\<open>SP_ASSERT_MSG\<close>); \<open>Vk_Failed\<close> carries the native result code and the message of
  \<open>SP_VK_ASSERT_MSG\<close>; \<open>Undefined_Behaviour\<close> marks the one place where the C++ reads a
  \<open>std::vector\<close> out of range.
\<close>

datatype fatal =
    Assertion_Failed string
  | Vk_Failed int string
  | Undefined_Behaviour string

text \<open>
  Modelled from the spec: the macros \<open>SP_ASSERT\<close> and \<open>SP_ASSERT_MSG\<close> are declared in
  \<open>Definitions.h\<close>, which is not among the sources. The specification says of them that a
  contract violation is a ``fatal assertion -- terminates with diagnostic message; never
  recovered''. \<open>SP_ASSERT c expr rest\<close> is the assertion of \<open>c\<close> followed by the rest of the
  function body.
\<close>

definition SP_ASSERT :: "bool \<Rightarrow> string \<Rightarrow> fatal + 'a \<Rightarrow> fatal + 'a" where
  "SP_ASSERT c expr rest = (if c then rest else Inl (Assertion_Failed expr))"

definition not_implemented :: string where
  "not_implemented = ''Function is not implemented''"

definition state_is_recording :: string where
  "state_is_recording = ''m_state == RHI_CommandListState::Recording''"

text \<open>An opaque backend handle (\<open>void*\<close>); \<open>nullptr\<close> is 0.\<close>

type_synonym handle = nat

definition nullptr :: handle where
  "nullptr = 0"

section \<open>The pipeline state\<close>

text \<open>
  \<open>RHI_Shader\<close>: \<open>GetRhiResource()\<close> is the compiled module, \<open>GetEntryPoint()\<close> a
  \<open>const char*\<close> that may be null.
\<close>

record RHI_Shader =
  shader_rhi_resource :: handle
  shader_entry_point :: "string option"


text \<open>
  \<open>RHI_RasterizerState\<close>, as the pipeline constructor reads it: \<open>GetDepthClipEnabled()\<close>,
  \<open>GetPolygonMode()\<close> and \<open>GetCullMode()\<close> (the number of the enumerator),
  \<open>GetLineWidth()\<close>, \<open>GetDepthBias()\<close>, \<open>GetDepthBiasClamp()\<close> and
  \<open>GetDepthBiasSlopeScaled()\<close> (floats).
\<close>

record RHI_RasterizerState =
  rs_depth_clip_enabled :: bool
  rs_polygon_mode :: nat
  rs_cull_mode :: nat
  rs_line_width :: real
  rs_depth_bias :: real
  rs_depth_bias_clamp :: real
  rs_depth_bias_slope_scaled :: real

text \<open>
  \<open>RHI_PipelineState\<close> is declared in \<open>RHI_PipelineState.h\<close>, which is not among the sources.
  The record holds the members the modelled functions read. The results of its methods
  \<open>IsGraphics()\<close>, \<open>IsCompute()\<close> and \<open>IsValid()\<close> are parameters of the model: a field each,
  so that nothing is assumed about how they are computed from the shaders.
\<close>

record RHI_PipelineState =
  shader_vertex :: "RHI_Shader option"
  shader_pixel :: "RHI_Shader option"
  shader_compute :: "RHI_Shader option"
  rasterizer_state :: "RHI_RasterizerState option"
  IsGraphics :: bool
  IsCompute :: bool
  IsValid :: bool
  pso_name :: string

section \<open>The D3D12 command list\<close>

subsection \<open>Data\<close>

datatype RHI_CommandListState = Idle | Recording | Ended | Submitted

text \<open>
  Floating-point values are only handed through by the command list; they are opaque here.
\<close>

typedecl float32

record RHI_Viewport =
  viewport_x :: float32
  viewport_y :: float32
  viewport_width :: float32
  viewport_height :: float32
  viewport_depth_min :: float32
  viewport_depth_max :: float32

record Rectangle =
  rectangle_left :: float32
  rectangle_top :: float32
  rectangle_right :: float32
  rectangle_bottom :: float32

record D3D12_RECT =
  d3d12_left :: "32 word"
  d3d12_top :: "32 word"
  d3d12_right :: "32 word"
  d3d12_bottom :: "32 word"

record D3D12_VERTEX_BUFFER_VIEW =
  vbv_BufferLocation :: "64 word"
  vbv_SizeInBytes :: "32 word"
  vbv_StrideInBytes :: "32 word"

datatype DXGI_FORMAT = DXGI_FORMAT_R16_UINT | DXGI_FORMAT_R32_UINT

record D3D12_INDEX_BUFFER_VIEW =
  ibv_BufferLocation :: "64 word"
  ibv_SizeInBytes :: "32 word"
  ibv_Format :: DXGI_FORMAT

text \<open>
  The calls the command list makes on its \<open>ID3D12GraphicsCommandList\<close>, with their
  arguments in the order of the native signature.
\<close>

datatype d3d12_call =
    Reset handle
  | Close
  | DrawInstanced "32 word" "32 word" "32 word" "32 word"
  | DrawIndexedInstanced "32 word" "32 word" "32 word" "32 word" "32 word"
  | Dispatch_call "32 word" "32 word" "32 word"
  | RSSetViewports RHI_Viewport
  | RSSetScissorRects D3D12_RECT
  | IASetVertexBuffers "32 word" "32 word" D3D12_VERTEX_BUFFER_VIEW
  | IASetIndexBuffer D3D12_INDEX_BUFFER_VIEW

text \<open>
  Buffers, textures and the swap chain, as far as the command list reads them:
  \<open>GetObjectId()\<close>, \<open>GetStride()\<close>, \<open>GetObjectSizeGpu()\<close>, \<open>Is16Bit()\<close>, \<open>GetFlags()\<close>,
  \<open>GetWidth()\<close>, \<open>GetHeight()\<close>. The command list reads through the pointers it is given
  without testing them: the arguments are objects. Stride and size have 64 bits here, of
  which \<open>static_cast<UINT>\<close> keeps the low 32.
\<close>

record RHI_VertexBuffer =
  vb_object_id :: "64 word"
  vb_stride :: "64 word"
  vb_object_size_gpu :: "64 word"

record RHI_IndexBuffer =
  ib_object_id :: "64 word"
  ib_object_size_gpu :: "64 word"
  ib_is_16bit :: bool

record RHI_Texture =
  texture_flags :: "32 word"
  texture_width :: "32 word"
  texture_height :: "32 word"

record RHI_SwapChain =
  swapchain_width :: "32 word"
  swapchain_height :: "32 word"

text \<open>
  The state a command-list method reads and writes: the members of \<open>RHI_CommandList\<close> that
  the methods below touch (the queue type, the name and the timestamps are written by the
  constructor only), the calls made so far on the native list behind \<open>m_rhi_resource\<close>
  (\<open>d3d12_calls\<close>, oldest first), and the static counters of \<open>Profiler\<close>. The headers that
  declare the members are not among the sources: object ids are 64-bit words, the
  counters 32-bit words, so that \<open>++\<close> wraps around. A method call through a null
  \<open>m_rhi_resource\<close> is undefined in C++; \<open>Begin\<close> asserts the handle before the list can
  record, and the model records the call.
\<close>

record RHI_CommandList =
  m_state :: RHI_CommandListState
  m_rhi_resource :: handle
  m_rhi_cmd_pool_resource :: handle
  m_vertex_buffer_id :: "64 word"
  m_index_buffer_id :: "64 word"
  d3d12_calls :: "d3d12_call list"
  m_rhi_draw :: "32 word"
  m_rhi_dispatch :: "32 word"
  m_rhi_bindings_buffer_vertex :: "32 word"
  m_rhi_bindings_buffer_index :: "32 word"

text \<open>
  What the command list takes from code that is not among the sources: the outcome of the
  native \<open>CreateCommandList\<close> (whether it succeeded, and the handle it wrote), \<open>Reset\<close> and
  \<open>Close\<close> calls, \<open>WaitForExecution()\<close>, the flag constant \<open>RHI_Texture_ClearBlit\<close>, the
  conversion \<open>static_cast<LONG>\<close> of a float, and the values that the default member
  initialisers of \<open>RHI_CommandList.h\<close> give the two cached buffer ids.
\<close>

record d3d12_env =
  CreateCommandList :: "handle \<Rightarrow> bool \<times> handle"
  m_vertex_buffer_id_default :: "64 word"
  m_index_buffer_id_default :: "64 word"
  Reset_succeeds :: bool
  Close_succeeds :: bool
  WaitForExecution :: "RHI_CommandList \<Rightarrow> RHI_CommandList"
  RHI_Texture_ClearBlit :: "32 word"
  static_cast_LONG :: "float32 \<Rightarrow> 32 word"

subsection \<open>The state machine\<close>



text \<open>
  \<open>Begin\<close> first waits for a submitted list (\<open>Begin_wait\<close>: the \<open>if\<close> that opens the body),
  then asserts, resets the native list and moves to \<open>Recording\<close>.
\<close>

definition Begin_wait :: "d3d12_env \<Rightarrow> RHI_CommandList \<Rightarrow> RHI_CommandList" where
  "Begin_wait env cl = (if m_state cl = Submitted then WaitForExecution env cl else cl)"

definition Begin :: "d3d12_env \<Rightarrow> RHI_CommandList \<Rightarrow> fatal + RHI_CommandList" where
  "Begin env cl0 =
    (let cl = Begin_wait env cl0 in
     SP_ASSERT (m_rhi_resource cl \<noteq> nullptr) ''m_rhi_resource != nullptr''
    (SP_ASSERT (m_state cl = Idle) ''m_state == RHI_CommandListState::Idle''
    (SP_ASSERT (Reset_succeeds env) ''Failed to reset command list''
    (Inr (cl\<lparr>d3d12_calls := d3d12_calls cl @ [Reset (m_rhi_cmd_pool_resource cl)],
              m_state := Recording\<rparr>)))))"

definition End :: "d3d12_env \<Rightarrow> RHI_CommandList \<Rightarrow> fatal + RHI_CommandList" where
  "End env cl =
     SP_ASSERT (m_rhi_resource cl \<noteq> nullptr) ''m_rhi_resource != nullptr''
    (SP_ASSERT (m_state cl = Recording) state_is_recording
    (SP_ASSERT (Close_succeeds env) ''Failed to end command list''
    (Inr (cl\<lparr>d3d12_calls := d3d12_calls cl @ [Close], m_state := Ended\<rparr>))))"

text \<open>The body of \<open>Submit\<close> is empty.\<close>

definition Submit :: "RHI_CommandList \<Rightarrow> fatal + RHI_CommandList" where
  "Submit cl = Inr cl"

subsection \<open>Draw and dispatch\<close>

text \<open>The pre-draw hook of this backend: \<open>SP_ASSERT_MSG(false, ...)\<close> and nothing else.\<close>

definition OnDraw :: "RHI_CommandList \<Rightarrow> fatal + RHI_CommandList" where
  "OnDraw cl = SP_ASSERT False not_implemented (Inr cl)"

text \<open>
  Each of \<open>Draw\<close>, \<open>DrawIndexed\<close> and \<open>Dispatch\<close> asserts the state, runs \<open>OnDraw\<close>, and then
  makes the native call and counts it. The statements after \<open>OnDraw()\<close> are a function of
  their own (\<open>Draw_issue\<close>, \<open>DrawIndexed_issue\<close>, \<open>Dispatch_issue\<close>).
\<close>

definition Draw_issue :: "RHI_CommandList \<Rightarrow> 32 word \<Rightarrow> 32 word \<Rightarrow> RHI_CommandList" where
  "Draw_issue cl vertex_count vertex_start_index =
     cl\<lparr>d3d12_calls := d3d12_calls cl @ [DrawInstanced vertex_count 1 vertex_start_index 0],
        m_rhi_draw := m_rhi_draw cl + 1\<rparr>"

definition Draw :: "RHI_CommandList \<Rightarrow> 32 word \<Rightarrow> 32 word \<Rightarrow> fatal + RHI_CommandList" where
  "Draw cl vertex_count vertex_start_index =
     SP_ASSERT (m_state cl = Recording) state_is_recording
       (case OnDraw cl of
          Inl e \<Rightarrow> Inl e
        | Inr cl' \<Rightarrow> Inr (Draw_issue cl' vertex_count vertex_start_index))"

definition DrawIndexed_issue ::
  "RHI_CommandList \<Rightarrow> 32 word \<Rightarrow> 32 word \<Rightarrow> 32 word \<Rightarrow> 32 word \<Rightarrow> RHI_CommandList" where
  "DrawIndexed_issue cl index_count index_offset vertex_offset instance_count =
     cl\<lparr>d3d12_calls :=
          d3d12_calls cl @ [DrawIndexedInstanced index_count 1 index_offset vertex_offset 0],
        m_rhi_draw := m_rhi_draw cl + 1\<rparr>"

definition DrawIndexed ::
  "RHI_CommandList \<Rightarrow> 32 word \<Rightarrow> 32 word \<Rightarrow> 32 word \<Rightarrow> 32 word \<Rightarrow> fatal + RHI_CommandList" where
  "DrawIndexed cl index_count index_offset vertex_offset instance_count =
     SP_ASSERT (m_state cl = Recording) state_is_recording
       (case OnDraw cl of
          Inl e \<Rightarrow> Inl e
        | Inr cl' \<Rightarrow>
            Inr (DrawIndexed_issue cl' index_count index_offset vertex_offset instance_count))"

definition Dispatch_issue ::
  "RHI_CommandList \<Rightarrow> 32 word \<Rightarrow> 32 word \<Rightarrow> 32 word \<Rightarrow> RHI_CommandList" where
  "Dispatch_issue cl gx gy gz =
     cl\<lparr>d3d12_calls := d3d12_calls cl @ [Dispatch_call gx gy gz],
        m_rhi_dispatch := m_rhi_dispatch cl + 1\<rparr>"

definition Dispatch ::
  "RHI_CommandList \<Rightarrow> 32 word \<Rightarrow> 32 word \<Rightarrow> 32 word \<Rightarrow> bool \<Rightarrow> fatal + RHI_CommandList" where
  "Dispatch cl gx gy gz async =
     SP_ASSERT (m_state cl = Recording) state_is_recording
       (case OnDraw cl of
          Inl e \<Rightarrow> Inl e
        | Inr cl' \<Rightarrow> Inr (Dispatch_issue cl' gx gy gz))"

subsection \<open>Blit and copy\<close>

definition needs_ClearOrBlit :: string where
  "needs_ClearOrBlit = ''The texture needs the RHI_Texture_ClearOrBlit flag''"

definition Blit_texture ::
  "RHI_CommandList \<Rightarrow> RHI_Texture \<Rightarrow> RHI_Texture \<Rightarrow> bool \<Rightarrow> fatal + RHI_CommandList" where
  "Blit_texture cl source destination blit_mips = SP_ASSERT False not_implemented (Inr cl)"

text \<open>
  \<open>Blit(RHI_Texture*, RHI_SwapChain*)\<close> and \<open>Copy(RHI_Texture*, RHI_SwapChain*)\<close>: the
  assertions on the source texture are the whole body.
\<close>

definition Blit_swapchain ::
  "d3d12_env \<Rightarrow> RHI_CommandList \<Rightarrow> RHI_Texture \<Rightarrow> RHI_SwapChain \<Rightarrow> fatal + RHI_CommandList" where
  "Blit_swapchain env cl source destination =
     SP_ASSERT (texture_flags source AND RHI_Texture_ClearBlit env \<noteq> 0) needs_ClearOrBlit
    (SP_ASSERT (texture_width source \<le> swapchain_width destination
                \<and> texture_height source \<le> swapchain_height destination)
       ''The source texture dimension(s) are larger than the those of the destination texture''
    (Inr cl))"

definition Copy_texture ::
  "RHI_CommandList \<Rightarrow> RHI_Texture \<Rightarrow> RHI_Texture \<Rightarrow> bool \<Rightarrow> fatal + RHI_CommandList" where
  "Copy_texture cl source destination blit_mips = SP_ASSERT False not_implemented (Inr cl)"

definition Copy_swapchain ::
  "d3d12_env \<Rightarrow> RHI_CommandList \<Rightarrow> RHI_Texture \<Rightarrow> RHI_SwapChain \<Rightarrow> fatal + RHI_CommandList" where
  "Copy_swapchain env cl source destination =
     SP_ASSERT (texture_flags source AND RHI_Texture_ClearBlit env \<noteq> 0) needs_ClearOrBlit
    (SP_ASSERT (texture_width source = swapchain_width destination)
       ''source->GetWidth() == destination->GetWidth()''
    (SP_ASSERT (texture_height source = swapchain_height destination)
       ''source->GetHeight() == destination->GetHeight()''
    (Inr cl)))"

subsection \<open>Viewport, scissor and buffers\<close>

definition SetViewport :: "RHI_CommandList \<Rightarrow> RHI_Viewport \<Rightarrow> fatal + RHI_CommandList" where
  "SetViewport cl viewport =
     SP_ASSERT (m_state cl = Recording) state_is_recording
       (Inr (cl\<lparr>d3d12_calls := d3d12_calls cl @ [RSSetViewports viewport]\<rparr>))"

definition SetScissorRectangle ::
  "d3d12_env \<Rightarrow> RHI_CommandList \<Rightarrow> Rectangle \<Rightarrow> fatal + RHI_CommandList" where
  "SetScissorRectangle env cl scissor_rectangle =
     SP_ASSERT (m_state cl = Recording) state_is_recording
       (Inr (cl\<lparr>d3d12_calls := d3d12_calls cl @ [RSSetScissorRects
          \<lparr>d3d12_left = static_cast_LONG env (rectangle_left scissor_rectangle),
           d3d12_top = static_cast_LONG env (rectangle_top scissor_rectangle),
           d3d12_right = static_cast_LONG env (rectangle_right scissor_rectangle),
           d3d12_bottom = static_cast_LONG env (rectangle_bottom scissor_rectangle)\<rparr>]\<rparr>))"

text \<open>
  \<open>SetBufferVertex(buffer, binding)\<close>: the \<open>binding\<close> argument is not read; the native call
  always starts at slot 0 with one view. \<open>static_cast<UINT>\<close> keeps the low 32 bits. The
  statements after the early \<open>return\<close> are \<open>SetBufferVertex_bind\<close>: the native call, the
  cached id, the counter.
\<close>

definition SetBufferVertex_bind :: "RHI_CommandList \<Rightarrow> RHI_VertexBuffer \<Rightarrow> RHI_CommandList" where
  "SetBufferVertex_bind cl buffer =
     cl\<lparr>d3d12_calls := d3d12_calls cl @ [IASetVertexBuffers 0 1
            \<lparr>vbv_BufferLocation = 0,
             vbv_SizeInBytes = ucast (vb_object_size_gpu buffer),
             vbv_StrideInBytes = ucast (vb_stride buffer)\<rparr>],
        m_vertex_buffer_id := vb_object_id buffer,
        m_rhi_bindings_buffer_vertex := m_rhi_bindings_buffer_vertex cl + 1\<rparr>"

definition SetBufferVertex ::
  "RHI_CommandList \<Rightarrow> RHI_VertexBuffer \<Rightarrow> 32 word \<Rightarrow> fatal + RHI_CommandList" where
  "SetBufferVertex cl buffer binding =
     SP_ASSERT (m_state cl = Recording) state_is_recording
       (if m_vertex_buffer_id cl = vb_object_id buffer then Inr cl
        else Inr (SetBufferVertex_bind cl buffer))"

definition SetBufferIndex_bind :: "RHI_CommandList \<Rightarrow> RHI_IndexBuffer \<Rightarrow> RHI_CommandList" where
  "SetBufferIndex_bind cl buffer =
     cl\<lparr>d3d12_calls := d3d12_calls cl @ [IASetIndexBuffer
            \<lparr>ibv_BufferLocation = 0,
             ibv_SizeInBytes = ucast (ib_object_size_gpu buffer),
             ibv_Format = (if ib_is_16bit buffer then DXGI_FORMAT_R16_UINT
                           else DXGI_FORMAT_R32_UINT)\<rparr>],
        m_index_buffer_id := ib_object_id buffer,
        m_rhi_bindings_buffer_index := m_rhi_bindings_buffer_index cl + 1\<rparr>"

definition SetBufferIndex ::
  "RHI_CommandList \<Rightarrow> RHI_IndexBuffer \<Rightarrow> fatal + RHI_CommandList" where
  "SetBufferIndex cl buffer =
     SP_ASSERT (m_state cl = Recording) state_is_recording
       (if m_index_buffer_id cl = ib_object_id buffer then Inr cl
        else Inr (SetBufferIndex_bind cl buffer))"

subsection \<open>Paths this backend does not implement\<close>

text \<open>
  The bodies below read none of their arguments; arguments of types that are declared
  outside the sources (constant buffers, samplers, colours, names) are left out.
\<close>

definition SetPipelineState :: "RHI_CommandList \<Rightarrow> RHI_PipelineState \<Rightarrow> fatal + RHI_CommandList" where
  "SetPipelineState cl pso =
     SP_ASSERT (IsValid pso) ''pso.IsValid() && \"Pipeline state is invalid\"''
    (SP_ASSERT (m_state cl = Recording) state_is_recording
    (SP_ASSERT False not_implemented (Inr cl)))"

definition BeginRenderPass :: "RHI_CommandList \<Rightarrow> fatal + RHI_CommandList" where
  "BeginRenderPass cl = SP_ASSERT False not_implemented (Inr cl)"

definition EndRenderPass :: "RHI_CommandList \<Rightarrow> fatal + RHI_CommandList" where
  "EndRenderPass cl = SP_ASSERT False not_implemented (Inr cl)"

definition ClearPipelineStateRenderTargets ::
  "RHI_CommandList \<Rightarrow> RHI_PipelineState \<Rightarrow> fatal + RHI_CommandList" where
  "ClearPipelineStateRenderTargets cl pipeline_state = SP_ASSERT False not_implemented (Inr cl)"

definition ClearRenderTarget ::
  "RHI_CommandList \<Rightarrow> RHI_Texture \<Rightarrow> 32 word \<Rightarrow> 32 word \<Rightarrow> bool \<Rightarrow> fatal + RHI_CommandList" where
  "ClearRenderTarget cl texture color_index depth_stencil_index storage =
     SP_ASSERT False not_implemented (Inr cl)"

definition SetConstantBuffer :: "RHI_CommandList \<Rightarrow> 32 word \<Rightarrow> fatal + RHI_CommandList" where
  "SetConstantBuffer cl slot = SP_ASSERT False not_implemented (Inr cl)"

definition PushConstants :: "RHI_CommandList \<Rightarrow> 32 word \<Rightarrow> 32 word \<Rightarrow> fatal + RHI_CommandList" where
  "PushConstants cl offset size_bytes = SP_ASSERT False not_implemented (Inr cl)"

definition SetStructuredBuffer :: "RHI_CommandList \<Rightarrow> 32 word \<Rightarrow> fatal + RHI_CommandList" where
  "SetStructuredBuffer cl slot = SP_ASSERT False not_implemented (Inr cl)"

definition SetSampler :: "RHI_CommandList \<Rightarrow> 32 word \<Rightarrow> fatal + RHI_CommandList" where
  "SetSampler cl slot = SP_ASSERT False not_implemented (Inr cl)"

definition SetTexture ::
  "RHI_CommandList \<Rightarrow> 32 word \<Rightarrow> RHI_Texture \<Rightarrow> 32 word \<Rightarrow> 32 word \<Rightarrow> bool
     \<Rightarrow> fatal + RHI_CommandList" where
  "SetTexture cl slot texture mip_index mip_range uav = SP_ASSERT False not_implemented (Inr cl)"

text \<open>\<open>BeginTimestamp\<close> returns a \<open>uint32_t\<close>: 0, after the assertion.\<close>

definition BeginTimestamp :: "RHI_CommandList \<Rightarrow> fatal + (RHI_CommandList \<times> 32 word)" where
  "BeginTimestamp cl = SP_ASSERT False not_implemented (Inr (cl, 0))"

definition EndTimestamp :: "RHI_CommandList \<Rightarrow> fatal + RHI_CommandList" where
  "EndTimestamp cl = SP_ASSERT False not_implemented (Inr cl)"

definition BeginTimeblock :: "RHI_CommandList \<Rightarrow> bool \<Rightarrow> bool \<Rightarrow> fatal + RHI_CommandList" where
  "BeginTimeblock cl gpu_marker gpu_timing = SP_ASSERT False not_implemented (Inr cl)"

definition EndTimeblock :: "RHI_CommandList \<Rightarrow> fatal + RHI_CommandList" where
  "EndTimeblock cl = SP_ASSERT False not_implemented (Inr cl)"

definition BeginMarker :: "RHI_CommandList \<Rightarrow> fatal + RHI_CommandList" where
  "BeginMarker cl = SP_ASSERT False not_implemented (Inr cl)"

definition EndMarker :: "RHI_CommandList \<Rightarrow> fatal + RHI_CommandList" where
  "EndMarker cl = SP_ASSERT False not_implemented (Inr cl)"

subsection \<open>Memory barriers\<close>

text \<open>
  The three barrier functions have empty bodies. An image layout (\<open>RHI_Image_Layout\<close>) is
  the number of its enumerator.
\<close>

definition InsertMemoryBarrierImage ::
  "RHI_CommandList \<Rightarrow> handle \<Rightarrow> 32 word \<Rightarrow> 32 word \<Rightarrow> 32 word \<Rightarrow> 32 word \<Rightarrow> nat \<Rightarrow> nat
     \<Rightarrow> fatal + RHI_CommandList" where
  "InsertMemoryBarrierImage cl image_handle aspect_mask mip_index mip_range array_length
     layout_old layout_new = Inr cl"

definition InsertMemoryBarrierImage_texture ::
  "RHI_CommandList \<Rightarrow> RHI_Texture \<Rightarrow> 32 word \<Rightarrow> 32 word \<Rightarrow> 32 word \<Rightarrow> nat \<Rightarrow> nat
     \<Rightarrow> fatal + RHI_CommandList" where
  "InsertMemoryBarrierImage_texture cl texture mip_start mip_range array_length
     layout_old layout_new = Inr cl"

definition InsertMemoryBarrierImageWaitForWrite ::
  "RHI_CommandList \<Rightarrow> RHI_Texture \<Rightarrow> fatal + RHI_CommandList" where
  "InsertMemoryBarrierImageWaitForWrite cl texture = Inr cl"

subsection \<open>Sequences of calls\<close>

text \<open>
  \<open>SetBufferVertex(buffer, binding)\<close> called once for each element of a list of \<open>binding\<close>
  arguments, in order, on the same buffer; a fatal failure ends the run.
\<close>

fun SetBufferVertex_seq ::
  "RHI_CommandList \<Rightarrow> RHI_VertexBuffer \<Rightarrow> 32 word list \<Rightarrow> fatal + RHI_CommandList" where
  "SetBufferVertex_seq cl buffer [] = Inr cl"
| "SetBufferVertex_seq cl buffer (binding # rest) =
     (case SetBufferVertex cl buffer binding of
        Inl e \<Rightarrow> Inl e
      | Inr cl' \<Rightarrow> SetBufferVertex_seq cl' buffer rest)"

subsection \<open>Runs of method calls\<close>







section \<open>The Vulkan pipeline object\<close>

subsection \<open>Data\<close>

text \<open>
  The descriptor types other than the push-constant buffer are not told apart by the
  constructor; \<open>Other_Descriptor\<close> carries the number of the enumerator.
\<close>

datatype RHI_Descriptor_Type = PushConstantBuffer | Other_Descriptor nat

record RHI_Descriptor =
  descriptor_type :: RHI_Descriptor_Type
  descriptor_struct_size :: "32 word"
  descriptor_stage :: "32 word"

text \<open>
  \<open>RHI_DescriptorSetLayout\<close>: \<open>GetRhiResource()\<close> and \<open>GetDescriptors()\<close>. The constructor
  takes a pointer to it and reads through the pointer at once: the layout is an object.
\<close>

record RHI_DescriptorSetLayout =
  dsl_rhi_resource :: handle
  dsl_descriptors :: "RHI_Descriptor list"

datatype RHI_Device_Resource = sampler_comparison | sampler_regular

record VkPushConstantRange =
  pcr_stageFlags :: "32 word"
  pcr_offset :: "32 word"
  pcr_size :: "32 word"

record VkPipelineLayoutCreateInfo =
  setLayoutCount :: "32 word"
  pSetLayouts :: "handle list"
  pushConstantRangeCount :: "32 word"
  pPushConstantRanges :: "VkPushConstantRange list"

record VkPipelineShaderStageCreateInfo =
  ssi_stage :: "32 word"
  ssi_module :: handle
  ssi_pName :: "string option"

text \<open>
  The rasterization state with the depth-clip state chained to it (\<open>depthClipEnable\<close>).
  Enumerations are the number of the Vulkan enumerator.
\<close>

record VkPipelineRasterizationStateCreateInfo =
  depthClipEnable :: bool
  depthClampEnable :: bool
  rasterizerDiscardEnable :: bool
  polygonMode :: nat
  lineWidth :: real
  cullMode :: nat
  frontFace :: nat
  depthBiasEnable :: bool
  depthBiasConstantFactor :: real
  depthBiasClamp :: real
  depthBiasSlopeFactor :: real

text \<open>
  Of the graphics create-info the model keeps the shader stages, the rasterization state
  and the layout. The other sub-states the constructor fills in between (dynamic state,
  viewport and scissor, vertex input, input assembly, multisampling, blend,
  depth-stencil, attachment formats) are copied from the pipeline state through tables of
  the backend; none of them has an assertion and none decides which branch runs.
\<close>

record VkGraphicsPipelineCreateInfo =
  gp_stageCount :: "32 word"
  gp_pStages :: "VkPipelineShaderStageCreateInfo list"
  gp_pRasterizationState :: VkPipelineRasterizationStateCreateInfo
  gp_layout :: handle

record VkComputePipelineCreateInfo =
  cp_stage :: VkPipelineShaderStageCreateInfo
  cp_layout :: handle

datatype vk_call =
    CreatePipelineLayout VkPipelineLayoutCreateInfo
  | CreateGraphicsPipelines VkGraphicsPipelineCreateInfo
  | CreateComputePipelines VkComputePipelineCreateInfo

text \<open>
  The constructed object: the copy of the pipeline state (\<open>m_state\<close> in the source), the two
  handles, and the creation calls made on the device, oldest first. \<open>RHI_Pipeline.h\<close> is
  not among the sources; \<open>m_resource_pipeline\<close> starts as \<open>nullptr\<close>, the value the
  destructor leaves in it.
\<close>

record RHI_Pipeline =
  m_pipeline_state :: RHI_PipelineState
  m_resource_pipeline_layout :: handle
  m_resource_pipeline :: handle
  vk_calls :: "vk_call list"

text \<open>
  What the constructor takes from code that is not among the sources: the sampler layouts
  and the push-constant limit of \<open>RHI_Device\<close>, the shader-stage bits of \<open>RHI_Shader_Stage\<close>,
  the tables \<open>vulkan_polygon_mode\<close> and \<open>vulkan_cull_mode\<close>, and the device's answer to each
  creation call (its \<open>VkResult\<close> and the handle it writes). \<open>round_binary32\<close> is the
  rounding of the platform's binary32 arithmetic: an operation on floats yields the
  rounding of the exact result.
\<close>

record vk_env =
  round_binary32 :: "real \<Rightarrow> real"
  vulkan_polygon_mode :: "nat \<Rightarrow> nat"
  vulkan_cull_mode :: "nat \<Rightarrow> nat"
  GetDescriptorSetLayout :: "RHI_Device_Resource \<Rightarrow> handle"
  PropertyGetMaxPushConstantSize :: "32 word"
  RHI_Shader_Vertex :: "32 word"
  RHI_Shader_Pixel :: "32 word"
  RHI_Shader_Compute :: "32 word"
  vkCreatePipelineLayout :: "VkPipelineLayoutCreateInfo \<Rightarrow> int \<times> handle"
  vkCreateGraphicsPipelines :: "VkGraphicsPipelineCreateInfo \<Rightarrow> int \<times> handle"
  vkCreateComputePipelines :: "VkComputePipelineCreateInfo \<Rightarrow> int \<times> handle"

definition VK_SUCCESS :: int where
  "VK_SUCCESS = 0"

definition VK_SHADER_STAGE_VERTEX_BIT :: "32 word" where
  "VK_SHADER_STAGE_VERTEX_BIT = 0x1"

definition VK_SHADER_STAGE_FRAGMENT_BIT :: "32 word" where
  "VK_SHADER_STAGE_FRAGMENT_BIT = 0x10"

definition VK_SHADER_STAGE_COMPUTE_BIT :: "32 word" where
  "VK_SHADER_STAGE_COMPUTE_BIT = 0x20"

text \<open>
  Modelled from the spec: the macro \<open>SP_VK_ASSERT_MSG\<close> is declared outside the sources. The
  specification says of a backend object-creation failure that it is a ``fatal assertion
  with the backend's native error code surfaced in the diagnostic''.
\<close>

definition SP_VK_ASSERT_MSG :: "int \<Rightarrow> string \<Rightarrow> fatal + 'a \<Rightarrow> fatal + 'a" where
  "SP_VK_ASSERT_MSG vk_result msg rest =
     (if vk_result = VK_SUCCESS then rest else Inl (Vk_Failed vk_result msg))"

subsection \<open>The pipeline layout\<close>

text \<open>The loop \<open>for (void* layout : layouts) SP_ASSERT(layout != nullptr)\<close>.\<close>

fun validate_layouts :: "handle list \<Rightarrow> fatal + 'a \<Rightarrow> fatal + 'a" where
  "validate_layouts [] rest = rest"
| "validate_layouts (layout # layouts) rest =
     SP_ASSERT (layout \<noteq> nullptr) ''layout != nullptr'' (validate_layouts layouts rest)"

definition push_constant_range :: "vk_env \<Rightarrow> RHI_Descriptor \<Rightarrow> VkPushConstantRange" where
  "push_constant_range env descriptor =
     \<lparr>pcr_stageFlags =
        (if descriptor_stage descriptor AND RHI_Shader_Vertex env \<noteq> 0
         then VK_SHADER_STAGE_VERTEX_BIT else 0)
        OR (if descriptor_stage descriptor AND RHI_Shader_Pixel env \<noteq> 0
            then VK_SHADER_STAGE_FRAGMENT_BIT else 0)
        OR (if descriptor_stage descriptor AND RHI_Shader_Compute env \<noteq> 0
            then VK_SHADER_STAGE_COMPUTE_BIT else 0),
      pcr_offset = 0,
      pcr_size = descriptor_struct_size descriptor\<rparr>"

text \<open>The loop over the descriptors: one range for each push-constant buffer, in order.\<close>

fun push_constant_ranges ::
  "vk_env \<Rightarrow> RHI_Descriptor list \<Rightarrow> fatal + VkPushConstantRange list" where
  "push_constant_ranges env [] = Inr []"
| "push_constant_ranges env (descriptor # descriptors) =
     (if descriptor_type descriptor = PushConstantBuffer then
        SP_ASSERT (descriptor_struct_size descriptor \<le> PropertyGetMaxPushConstantSize env)
          ''descriptor.struct_size <= RHI_Device::PropertyGetMaxPushConstantSize()''
          (case push_constant_ranges env descriptors of
             Inl e \<Rightarrow> Inl e
           | Inr ranges \<Rightarrow> Inr (push_constant_range env descriptor # ranges))
      else push_constant_ranges env descriptors)"

definition layouts_of :: "vk_env \<Rightarrow> RHI_DescriptorSetLayout \<Rightarrow> handle list" where
  "layouts_of env descriptor_set_layout =
     [dsl_rhi_resource descriptor_set_layout,
      GetDescriptorSetLayout env sampler_comparison,
      GetDescriptorSetLayout env sampler_regular]"

text \<open>
  The first block of the constructor: the create-info it hands to
  \<open>vkCreatePipelineLayout\<close> and the handle it gets back. Naming the handle
  (\<open>SetResourceName\<close>) cannot fail and is not modelled.
\<close>

definition pipeline_layout ::
  "vk_env \<Rightarrow> RHI_DescriptorSetLayout \<Rightarrow> fatal + (VkPipelineLayoutCreateInfo \<times> handle)" where
  "pipeline_layout env descriptor_set_layout =
     (let layouts = layouts_of env descriptor_set_layout in
      validate_layouts layouts
        (case push_constant_ranges env (dsl_descriptors descriptor_set_layout) of
           Inl e \<Rightarrow> Inl e
         | Inr ranges \<Rightarrow>
            (let pipeline_layout_info =
                   \<lparr>setLayoutCount = of_nat (length layouts),
                    pSetLayouts = layouts,
                    pushConstantRangeCount = of_nat (length ranges),
                    pPushConstantRanges = ranges\<rparr>
             in case vkCreatePipelineLayout env pipeline_layout_info of
                  (vk_result, layout_handle) \<Rightarrow>
                    SP_VK_ASSERT_MSG vk_result ''Failed to create pipeline layout''
                      (Inr (pipeline_layout_info, layout_handle)))))"

subsection \<open>The shader stages\<close>

definition add_shader_stage ::
  "32 word \<Rightarrow> RHI_Shader option \<Rightarrow> VkPipelineShaderStageCreateInfo list
     \<Rightarrow> fatal + VkPipelineShaderStageCreateInfo list" where
  "add_shader_stage stage_bit shader shader_stages =
     (case shader of
        None \<Rightarrow> Inr shader_stages
      | Some sh \<Rightarrow>
          SP_ASSERT (shader_rhi_resource sh \<noteq> nullptr) ''shader_stage_info.module != nullptr''
         (SP_ASSERT (shader_entry_point sh \<noteq> None) ''shader_stage_info.pName != nullptr''
         (Inr (shader_stages @
                 [\<lparr>ssi_stage = stage_bit, ssi_module = shader_rhi_resource sh,
                   ssi_pName = shader_entry_point sh\<rparr>]))))"

definition shader_stages_of ::
  "RHI_PipelineState \<Rightarrow> fatal + VkPipelineShaderStageCreateInfo list" where
  "shader_stages_of pipeline_state =
     (case add_shader_stage VK_SHADER_STAGE_VERTEX_BIT (shader_vertex pipeline_state) [] of
        Inl e \<Rightarrow> Inl e
      | Inr s1 \<Rightarrow>
         (case add_shader_stage VK_SHADER_STAGE_FRAGMENT_BIT (shader_pixel pipeline_state) s1 of
            Inl e \<Rightarrow> Inl e
          | Inr s2 \<Rightarrow>
              add_shader_stage VK_SHADER_STAGE_COMPUTE_BIT (shader_compute pipeline_state) s2))"

subsection \<open>The rasterizer state\<close>

definition VK_FRONT_FACE_CLOCKWISE :: nat where
  "VK_FRONT_FACE_CLOCKWISE = 1"

text \<open>
  Modelled from the spec: \<open>Math::Helper::Floor\<close> is declared in \<open>MathHelper.h\<close>, which is
  not among the sources. The specification gives the constant factor as
  ``\<open>floor(d * 2^24)\<close>'': the function is the floor, returned as a float.
\<close>

definition Math_Helper_Floor :: "real \<Rightarrow> real" where
  "Math_Helper_Floor v = real_of_int \<lfloor>v\<rfloor>"

text \<open>The product of two floats: the exact product, rounded.\<close>

definition binary32_mul :: "vk_env \<Rightarrow> real \<Rightarrow> real \<Rightarrow> real" where
  "binary32_mul env a b = round_binary32 env (a * b)"

text \<open>
  The block \<open>if (m_state.rasterizer_state) { ... }\<close>: without a rasterizer state the two
  structures stay as \<open>= {}\<close> left them; \<open>(float)(1 << 24)\<close> is \<open>2 ^ 24\<close> exactly.
\<close>

definition rasterizer_state_of ::
  "vk_env \<Rightarrow> RHI_PipelineState \<Rightarrow> VkPipelineRasterizationStateCreateInfo" where
  "rasterizer_state_of env pipeline_state =
     (case rasterizer_state pipeline_state of
        None \<Rightarrow>
          \<lparr>depthClipEnable = False, depthClampEnable = False,
           rasterizerDiscardEnable = False, polygonMode = 0, lineWidth = 0, cullMode = 0,
           frontFace = 0, depthBiasEnable = False, depthBiasConstantFactor = 0,
           depthBiasClamp = 0, depthBiasSlopeFactor = 0\<rparr>
      | Some rs \<Rightarrow>
          \<lparr>depthClipEnable = rs_depth_clip_enabled rs,
           depthClampEnable = False,
           rasterizerDiscardEnable = False,
           polygonMode = vulkan_polygon_mode env (rs_polygon_mode rs),
           lineWidth = rs_line_width rs,
           cullMode = vulkan_cull_mode env (rs_cull_mode rs),
           frontFace = VK_FRONT_FACE_CLOCKWISE,
           depthBiasEnable = (rs_depth_bias rs \<noteq> 0),
           depthBiasConstantFactor =
             Math_Helper_Floor (binary32_mul env (rs_depth_bias rs) (2 ^ 24)),
           depthBiasClamp = rs_depth_bias_clamp rs,
           depthBiasSlopeFactor = rs_depth_bias_slope_scaled rs\<rparr>)"

subsection \<open>The pipeline\<close>

text \<open>
  The last block of the constructor: \<open>if (pipeline_state.IsGraphics()) ... else if
  (pipeline_state.IsCompute()) ...\<close>, with no final \<open>else\<close>. The two branches are
  \<open>create_graphics_pipeline\<close> and \<open>create_compute_pipeline\<close>; the compute branch reads
  \<open>shader_stages[0]\<close>. The graphics branch points the create-info at the rasterization
  state that the constructor has filled in before (\<open>rasterizer_state_of\<close>).
\<close>

definition create_graphics_pipeline ::
  "vk_env \<Rightarrow> RHI_PipelineState \<Rightarrow> VkPipelineLayoutCreateInfo \<Rightarrow> handle
     \<Rightarrow> VkPipelineShaderStageCreateInfo list \<Rightarrow> fatal + RHI_Pipeline" where
  "create_graphics_pipeline env pipeline_state pipeline_layout_info layout_handle shader_stages =
     (let pipeline_info =
            \<lparr>gp_stageCount = of_nat (length shader_stages),
             gp_pStages = shader_stages,
             gp_pRasterizationState = rasterizer_state_of env pipeline_state,
             gp_layout = layout_handle\<rparr>
      in case vkCreateGraphicsPipelines env pipeline_info of
           (vk_result, pipeline) \<Rightarrow>
             SP_VK_ASSERT_MSG vk_result ''Failed to create graphics pipeline''
               (Inr \<lparr>m_pipeline_state = pipeline_state,
                     m_resource_pipeline_layout = layout_handle,
                     m_resource_pipeline = pipeline,
                     vk_calls = [CreatePipelineLayout pipeline_layout_info,
                                 CreateGraphicsPipelines pipeline_info]\<rparr>))"

definition create_compute_pipeline ::
  "vk_env \<Rightarrow> RHI_PipelineState \<Rightarrow> VkPipelineLayoutCreateInfo \<Rightarrow> handle
     \<Rightarrow> VkPipelineShaderStageCreateInfo list \<Rightarrow> fatal + RHI_Pipeline" where
  "create_compute_pipeline env pipeline_state pipeline_layout_info layout_handle shader_stages =
     (case shader_stages of
        [] \<Rightarrow> Inl (Undefined_Behaviour ''shader_stages[0]'')
      | stage0 # others \<Rightarrow>
         (let pipeline_info = \<lparr>cp_stage = stage0, cp_layout = layout_handle\<rparr>
          in case vkCreateComputePipelines env pipeline_info of
               (vk_result, pipeline) \<Rightarrow>
                 SP_VK_ASSERT_MSG vk_result ''Failed to create compute pipeline''
                   (Inr \<lparr>m_pipeline_state = pipeline_state,
                         m_resource_pipeline_layout = layout_handle,
                         m_resource_pipeline = pipeline,
                         vk_calls = [CreatePipelineLayout pipeline_layout_info,
                                     CreateComputePipelines pipeline_info]\<rparr>)))"

definition create_pipeline ::
  "vk_env \<Rightarrow> RHI_PipelineState \<Rightarrow> VkPipelineLayoutCreateInfo \<Rightarrow> handle
     \<Rightarrow> VkPipelineShaderStageCreateInfo list \<Rightarrow> fatal + RHI_Pipeline" where
  "create_pipeline env pipeline_state pipeline_layout_info layout_handle shader_stages =
     (if IsGraphics pipeline_state then
        create_graphics_pipeline env pipeline_state pipeline_layout_info layout_handle
          shader_stages
      else if IsCompute pipeline_state then
        create_compute_pipeline env pipeline_state pipeline_layout_info layout_handle
          shader_stages
      else
        Inr \<lparr>m_pipeline_state = pipeline_state,
             m_resource_pipeline_layout = layout_handle,
             m_resource_pipeline = nullptr,
             vk_calls = [CreatePipelineLayout pipeline_layout_info]\<rparr>)"

text \<open>The constructor \<open>RHI_Pipeline::RHI_Pipeline(pipeline_state, descriptor_set_layout)\<close>.\<close>

definition RHI_Pipeline_ctor ::
  "vk_env \<Rightarrow> RHI_PipelineState \<Rightarrow> RHI_DescriptorSetLayout \<Rightarrow> fatal + RHI_Pipeline" where
  "RHI_Pipeline_ctor env pipeline_state descriptor_set_layout =
     (case pipeline_layout env descriptor_set_layout of
        Inl e \<Rightarrow> Inl e
      | Inr (pipeline_layout_info, layout_handle) \<Rightarrow>
         (case shader_stages_of pipeline_state of
            Inl e \<Rightarrow> Inl e
          | Inr shader_stages \<Rightarrow>
              create_pipeline env pipeline_state pipeline_layout_info layout_handle
                shader_stages))"


section \<open>Concrete inputs\<close>

text \<open>
  A backend on which the native calls succeed, \<open>WaitForExecution()\<close> leaves a list
  \<open>Idle\<close>, and the cached buffer ids start as 0.
\<close>

definition env_ok :: d3d12_env where
  "env_ok = \<lparr>CreateCommandList = (\<lambda>pool. (True, 1)),
             m_vertex_buffer_id_default = 0, m_index_buffer_id_default = 0,
             Reset_succeeds = True, Close_succeeds = True,
             WaitForExecution = (\<lambda>cl. cl\<lparr>m_state := Idle\<rparr>),
             RHI_Texture_ClearBlit = 64,
             static_cast_LONG = (\<lambda>f. 0)\<rparr>"

text \<open>
  The list that the constructor returns on \<open>env_ok\<close> for the command pool 2 with all
  counters 0, the same list after \<open>Begin\<close>, and after \<open>End\<close>.
\<close>

definition cl_new :: RHI_CommandList where
  "cl_new = \<lparr>m_state = Idle, m_rhi_resource = 1, m_rhi_cmd_pool_resource = 2,
             m_vertex_buffer_id = 0, m_index_buffer_id = 0, d3d12_calls = [],
             m_rhi_draw = 0, m_rhi_dispatch = 0,
             m_rhi_bindings_buffer_vertex = 0, m_rhi_bindings_buffer_index = 0\<rparr>"

definition cl_recording :: RHI_CommandList where
  "cl_recording = cl_new\<lparr>d3d12_calls := [Reset 2], m_state := Recording\<rparr>"

definition cl_ended :: RHI_CommandList where
  "cl_ended = cl_new\<lparr>d3d12_calls := [Reset 2, Close], m_state := Ended\<rparr>"

text \<open>
  A vertex buffer with the object id 7, a texture that has the \<open>RHI_Texture_ClearBlit\<close>
  flag of \<open>env_ok\<close>, and a swap chain of the texture's size.
\<close>

definition vb7 :: RHI_VertexBuffer where
  "vb7 = \<lparr>vb_object_id = 7, vb_stride = 32, vb_object_size_gpu = 96\<rparr>"

definition tex_blit :: RHI_Texture where
  "tex_blit = \<lparr>texture_flags = 64, texture_width = 640, texture_height = 480\<rparr>"

definition swapchain_vga :: RHI_SwapChain where
  "swapchain_vga = \<lparr>swapchain_width = 640, swapchain_height = 480\<rparr>"

text \<open>
  The recording list on which \<open>vb7\<close> has been bound, and an index buffer with the object
  id 9.
\<close>

definition cl_bound7 :: RHI_CommandList where
  "cl_bound7 = cl_recording\<lparr>
     d3d12_calls := [Reset 2, IASetVertexBuffers 0 1
       \<lparr>vbv_BufferLocation = 0, vbv_SizeInBytes = 96, vbv_StrideInBytes = 32\<rparr>],
     m_vertex_buffer_id := 7, m_rhi_bindings_buffer_vertex := 1\<rparr>"

definition ib9 :: RHI_IndexBuffer where
  "ib9 = \<lparr>ib_object_id = 9, ib_object_size_gpu = 12, ib_is_16bit = True\<rparr>"

text \<open>
  A device on which every creation call succeeds, a descriptor-set layout with one
  push-constant buffer, and three pipeline states: one with no shader at all, for which
  neither \<open>IsGraphics()\<close> nor \<open>IsCompute()\<close> holds, a graphics one and a compute one.
\<close>

definition vk_ok :: vk_env where
  "vk_ok = \<lparr>round_binary32 = (\<lambda>v. v),
            vulkan_polygon_mode = (\<lambda>n. n), vulkan_cull_mode = (\<lambda>n. n),
            GetDescriptorSetLayout =
              (\<lambda>r. case r of sampler_comparison \<Rightarrow> 21 | sampler_regular \<Rightarrow> 22),
            PropertyGetMaxPushConstantSize = 128,
            RHI_Shader_Vertex = 1, RHI_Shader_Pixel = 2, RHI_Shader_Compute = 4,
            vkCreatePipelineLayout = (\<lambda>i. (0, 31)),
            vkCreateGraphicsPipelines = (\<lambda>i. (0, 41)),
            vkCreateComputePipelines = (\<lambda>i. (0, 42))\<rparr>"

definition dsl_one :: RHI_DescriptorSetLayout where
  "dsl_one = \<lparr>dsl_rhi_resource = 20,
              dsl_descriptors = [\<lparr>descriptor_type = PushConstantBuffer,
                                  descriptor_struct_size = 64, descriptor_stage = 3\<rparr>]\<rparr>"

definition layout_info_one :: VkPipelineLayoutCreateInfo where
  "layout_info_one =
     \<lparr>setLayoutCount = 3, pSetLayouts = [20, 21, 22], pushConstantRangeCount = 1,
      pPushConstantRanges = [\<lparr>pcr_stageFlags = 0x11, pcr_offset = 0, pcr_size = 64\<rparr>]\<rparr>"

definition pso_no_shaders :: RHI_PipelineState where
  "pso_no_shaders = \<lparr>shader_vertex = None, shader_pixel = None, shader_compute = None,
                     rasterizer_state = None,
                     IsGraphics = False, IsCompute = False, IsValid = False,
                     pso_name = ''empty''\<rparr>"

definition shader_vs :: RHI_Shader where
  "shader_vs = \<lparr>shader_rhi_resource = 51, shader_entry_point = Some ''main_vs''\<rparr>"

definition shader_ps :: RHI_Shader where
  "shader_ps = \<lparr>shader_rhi_resource = 52, shader_entry_point = Some ''main_ps''\<rparr>"

definition pso_graphics :: RHI_PipelineState where
  "pso_graphics = \<lparr>shader_vertex = Some shader_vs, shader_pixel = Some shader_ps,
                   shader_compute = None, rasterizer_state = None,
                   IsGraphics = True, IsCompute = False, IsValid = True,
                   pso_name = ''opaque''\<rparr>"

definition stages_graphics :: "VkPipelineShaderStageCreateInfo list" where
  "stages_graphics =
     [\<lparr>ssi_stage = 0x1, ssi_module = 51, ssi_pName = Some ''main_vs''\<rparr>,
      \<lparr>ssi_stage = 0x10, ssi_module = 52, ssi_pName = Some ''main_ps''\<rparr>]"

definition pso_both_flags :: RHI_PipelineState where
  "pso_both_flags = pso_graphics\<lparr>IsCompute := True\<rparr>"

definition graphics_info :: VkGraphicsPipelineCreateInfo where
  "graphics_info =
     \<lparr>gp_stageCount = 2, gp_pStages = stages_graphics,
      gp_pRasterizationState =
        \<lparr>depthClipEnable = False, depthClampEnable = False,
         rasterizerDiscardEnable = False, polygonMode = 0, lineWidth = 0, cullMode = 0,
         frontFace = 0, depthBiasEnable = False, depthBiasConstantFactor = 0,
         depthBiasClamp = 0, depthBiasSlopeFactor = 0\<rparr>,
      gp_layout = 31\<rparr>"

text \<open>
  A rasterizer state with the depth bias \<open>- 5 / 2 ^ 25\<close>, and the graphics pipeline state
  with it.
\<close>

definition rs_biased :: RHI_RasterizerState where
  "rs_biased = \<lparr>rs_depth_clip_enabled = True, rs_polygon_mode = 0, rs_cull_mode = 2,
                rs_line_width = 1, rs_depth_bias = - 5 / 2 ^ 25, rs_depth_bias_clamp = 0,
                rs_depth_bias_slope_scaled = 0\<rparr>"

definition pso_biased :: RHI_PipelineState where
  "pso_biased = \<lparr>shader_vertex = Some shader_vs, shader_pixel = Some shader_ps,
                 shader_compute = None, rasterizer_state = Some rs_biased,
                 IsGraphics = True, IsCompute = False, IsValid = True,
                 pso_name = ''biased''\<rparr>"

definition rasterization_biased :: VkPipelineRasterizationStateCreateInfo where
  "rasterization_biased =
     \<lparr>depthClipEnable = True, depthClampEnable = False, rasterizerDiscardEnable = False,
      polygonMode = 0, lineWidth = 1, cullMode = 2, frontFace = 1, depthBiasEnable = True,
      depthBiasConstantFactor = - 3, depthBiasClamp = 0, depthBiasSlopeFactor = 0\<rparr>"

definition pipeline_biased :: RHI_Pipeline where
  "pipeline_biased =
     \<lparr>m_pipeline_state = pso_biased, m_resource_pipeline_layout = 31,
      m_resource_pipeline = 41,
      vk_calls = [CreatePipelineLayout layout_info_one,
                  CreateGraphicsPipelines
                    \<lparr>gp_stageCount = 2, gp_pStages = stages_graphics,
                     gp_pRasterizationState = rasterization_biased, gp_layout = 31\<rparr>]\<rparr>"

definition pipeline_graphics :: RHI_Pipeline where
  "pipeline_graphics =
     \<lparr>m_pipeline_state = pso_graphics, m_resource_pipeline_layout = 31,
      m_resource_pipeline = 41,
      vk_calls = [CreatePipelineLayout layout_info_one, CreateGraphicsPipelines graphics_info]\<rparr>"

section \<open>Evaluation of the concrete inputs\<close>

lemmas concrete_defs = env_ok_def cl_new_def cl_recording_def cl_ended_def vb7_def
  tex_blit_def swapchain_vga_def cl_bound7_def ib9_def

lemmas pipeline_concrete_defs = vk_ok_def dsl_one_def layout_info_one_def pso_no_shaders_def
  shader_vs_def shader_ps_def pso_graphics_def stages_graphics_def pso_both_flags_def
  graphics_info_def pipeline_graphics_def rs_biased_def pso_biased_def
  rasterization_biased_def pipeline_biased_def

lemmas stage_bit_defs = VK_SHADER_STAGE_VERTEX_BIT_def VK_SHADER_STAGE_FRAGMENT_BIT_def
  VK_SHADER_STAGE_COMPUTE_BIT_def

lemma pipeline_layout_one: "pipeline_layout vk_ok dsl_one = Inr (layout_info_one, 31)"
  by (simp add: pipeline_layout_def layouts_of_def push_constant_range_def SP_ASSERT_def
      SP_VK_ASSERT_MSG_def VK_SUCCESS_def nullptr_def pipeline_concrete_defs stage_bit_defs)

lemma shader_stages_of_no_shaders: "shader_stages_of pso_no_shaders = Inr []"
  by (simp add: shader_stages_of_def add_shader_stage_def pso_no_shaders_def)

lemma shader_stages_of_graphics: "shader_stages_of pso_graphics = Inr stages_graphics"
  by (simp add: shader_stages_of_def add_shader_stage_def SP_ASSERT_def nullptr_def
      pipeline_concrete_defs stage_bit_defs)

lemma shader_stages_of_both_flags: "shader_stages_of pso_both_flags = Inr stages_graphics"
  by (simp add: shader_stages_of_def add_shader_stage_def SP_ASSERT_def nullptr_def
      pipeline_concrete_defs stage_bit_defs)

lemma create_graphics_pipeline_ok:
  "rasterizer_state ps = None \<Longrightarrow>
   create_graphics_pipeline vk_ok ps layout_info_one 31 stages_graphics =
     Inr \<lparr>m_pipeline_state = ps, m_resource_pipeline_layout = 31, m_resource_pipeline = 41,
          vk_calls = [CreatePipelineLayout layout_info_one,
                      CreateGraphicsPipelines graphics_info]\<rparr>"
  by (simp add: create_graphics_pipeline_def rasterizer_state_of_def SP_VK_ASSERT_MSG_def
      VK_SUCCESS_def vk_ok_def stages_graphics_def graphics_info_def)

lemma rasterizer_state_none:
  "rasterizer_state pso_graphics = None" "rasterizer_state pso_both_flags = None"
  by (simp_all add: pso_graphics_def pso_both_flags_def)

lemma ctor_graphics: "RHI_Pipeline_ctor vk_ok pso_graphics dsl_one = Inr pipeline_graphics"
  by (simp add: RHI_Pipeline_ctor_def pipeline_layout_one shader_stages_of_graphics
      create_pipeline_def create_graphics_pipeline_ok rasterizer_state_none)
    (simp add: pso_graphics_def pipeline_graphics_def)






section \<open>The command list: general facts\<close>

text \<open>
  Every function whose body is the ``not implemented'' assertion fails with it, in every
  state and for every argument.
\<close>

lemma stubs_fail_not_implemented:
  "SetPipelineState cl pso = Inl (Assertion_Failed
     (if \<not> IsValid pso then ''pso.IsValid() && \"Pipeline state is invalid\"''
      else if m_state cl \<noteq> Recording then state_is_recording else not_implemented))"
  "BeginRenderPass cl = Inl (Assertion_Failed not_implemented)"
  "EndRenderPass cl = Inl (Assertion_Failed not_implemented)"
  "ClearPipelineStateRenderTargets cl pso = Inl (Assertion_Failed not_implemented)"
  "ClearRenderTarget cl t ci di st = Inl (Assertion_Failed not_implemented)"
  "Blit_texture cl t t' bm = Inl (Assertion_Failed not_implemented)"
  "Copy_texture cl t t' bm = Inl (Assertion_Failed not_implemented)"
  "SetConstantBuffer cl slot = Inl (Assertion_Failed not_implemented)"
  "PushConstants cl off sz = Inl (Assertion_Failed not_implemented)"
  "SetStructuredBuffer cl slot = Inl (Assertion_Failed not_implemented)"
  "SetSampler cl slot = Inl (Assertion_Failed not_implemented)"
  "SetTexture cl slot t mi mr uav = Inl (Assertion_Failed not_implemented)"
  "BeginTimestamp cl = Inl (Assertion_Failed not_implemented)"
  "EndTimestamp cl = Inl (Assertion_Failed not_implemented)"
  "BeginTimeblock cl gm gt = Inl (Assertion_Failed not_implemented)"
  "EndTimeblock cl = Inl (Assertion_Failed not_implemented)"
  "BeginMarker cl = Inl (Assertion_Failed not_implemented)"
  "EndMarker cl = Inl (Assertion_Failed not_implemented)"
  "OnDraw cl = Inl (Assertion_Failed not_implemented)"
  by (simp_all add: SP_ASSERT_def SetPipelineState_def BeginRenderPass_def EndRenderPass_def
      ClearPipelineStateRenderTargets_def ClearRenderTarget_def Blit_texture_def
      Copy_texture_def SetConstantBuffer_def PushConstants_def SetStructuredBuffer_def
      SetSampler_def SetTexture_def BeginTimestamp_def EndTimestamp_def BeginTimeblock_def
      EndTimeblock_def BeginMarker_def EndMarker_def OnDraw_def)

text \<open>
  The operations that open with the state assertion fail on it in every state other than
  \<open>Recording\<close>.
\<close>

lemma state_checked_operations:
  assumes "m_state cl \<noteq> Recording"
  shows "Draw cl vc vs = Inl (Assertion_Failed state_is_recording)"
    and "DrawIndexed cl ic io vo n = Inl (Assertion_Failed state_is_recording)"
    and "Dispatch cl gx gy gz async = Inl (Assertion_Failed state_is_recording)"
    and "SetViewport cl vp = Inl (Assertion_Failed state_is_recording)"
    and "SetScissorRectangle env cl r = Inl (Assertion_Failed state_is_recording)"
    and "SetBufferVertex cl vb b = Inl (Assertion_Failed state_is_recording)"
    and "SetBufferIndex cl ib = Inl (Assertion_Failed state_is_recording)"
  using assms
  by (simp_all add: SP_ASSERT_def Draw_def DrawIndexed_def Dispatch_def SetViewport_def
      SetScissorRectangle_def SetBufferVertex_def SetBufferIndex_def)

text \<open>A \<open>Begin\<close> that returns has moved the list it continued with to \<open>Recording\<close>.\<close>

lemma Begin_success:
  "Begin env cl = Inr cl' \<Longrightarrow>
     cl' = (Begin_wait env cl)\<lparr>d3d12_calls := d3d12_calls (Begin_wait env cl)
              @ [Reset (m_rhi_cmd_pool_resource (Begin_wait env cl))], m_state := Recording\<rparr>"
  by (auto simp add: Begin_def SP_ASSERT_def Let_def split: if_splits)

text \<open>On a recording list whose cached id is the buffer's, any run of binds is a no-op.\<close>

lemma SetBufferVertex_seq_bound:
  "m_state cl = Recording \<Longrightarrow> m_vertex_buffer_id cl = vb_object_id vb \<Longrightarrow>
     SetBufferVertex_seq cl vb bindings = Inr cl"
  by (induction bindings) (simp_all add: SetBufferVertex_def SP_ASSERT_def)










section \<open>Binary32 values\<close>




section \<open>The pipeline object: general facts\<close>

lemma validate_layouts_ok:
  "validate_layouts ls rest = Inr v \<Longrightarrow> rest = Inr v \<and> list_all (\<lambda>l. l \<noteq> nullptr) ls"
  by (induction ls) (auto simp add: SP_ASSERT_def split: if_splits)

lemma validate_layouts_null:
  "nullptr \<in> set ls \<Longrightarrow> validate_layouts ls rest = Inl (Assertion_Failed ''layout != nullptr'')"
  by (induction ls) (auto simp add: SP_ASSERT_def)

lemma pipeline_layout_success:
  assumes "pipeline_layout env dsl = Inr (info, h)"
  shows "pSetLayouts info = layouts_of env dsl \<and> setLayoutCount info = 3
         \<and> list_all (\<lambda>l. l \<noteq> nullptr) (layouts_of env dsl)"
proof -
  from assms have v: "list_all (\<lambda>l. l \<noteq> nullptr) (layouts_of env dsl)"
    unfolding pipeline_layout_def Let_def by (auto dest: validate_layouts_ok)
  from assms have "pSetLayouts info = layouts_of env dsl
      \<and> setLayoutCount info = of_nat (length (layouts_of env dsl))"
    unfolding pipeline_layout_def Let_def
    by (auto dest!: validate_layouts_ok simp add: SP_VK_ASSERT_MSG_def
        split: sum.splits prod.splits if_splits)
  with v show ?thesis by (simp add: layouts_of_def)
qed

lemma create_pipeline_calls:
  "create_pipeline env ps info h stages = Inr p \<Longrightarrow>
     \<exists>rest. vk_calls p = CreatePipelineLayout info # rest"
  by (auto simp add: create_pipeline_def create_graphics_pipeline_def
      create_compute_pipeline_def SP_VK_ASSERT_MSG_def Let_def
      split: if_splits prod.splits list.splits)

section \<open>The claims\<close>

subsection \<open>C1: the constructor and \<open>IsGraphics() == IsCompute()\<close>\<close>

text \<open>
  C1, as stated: for every pipeline state with \<open>IsGraphics() == IsCompute()\<close> the
  construction of the pipeline object fails fatally. It does not. For the pipeline state
  without shaders both predicates are false, the layout is created, no shader stage is
  asserted, neither branch of the last block runs, and the constructor returns an object
  whose pipeline handle is null.
\<close>

theorem ctor_returns_without_pipeline:
  "IsGraphics pso_no_shaders = IsCompute pso_no_shaders
   \<and> RHI_Pipeline_ctor vk_ok pso_no_shaders dsl_one =
       Inr \<lparr>m_pipeline_state = pso_no_shaders, m_resource_pipeline_layout = 31,
            m_resource_pipeline = nullptr,
            vk_calls = [CreatePipelineLayout layout_info_one]\<rparr>"
  by (simp add: RHI_Pipeline_ctor_def pipeline_layout_one shader_stages_of_no_shaders
      create_pipeline_def) (simp add: pso_no_shaders_def)

text \<open>
  C1, amended: the constructor does not check that exactly one of \<open>IsGraphics()\<close> and
  \<open>IsCompute()\<close> holds. Once the pipeline layout is created and the shader stages are
  collected, it returns without creating a pipeline (the handle null) when both are false;
  it runs the graphics branch when \<open>IsGraphics()\<close> is true, whatever \<open>IsCompute()\<close> is; and
  it runs the compute branch when only \<open>IsCompute()\<close> is true.
\<close>

theorem ctor_branches:
  "pipeline_layout env dsl = Inr (info, h) \<Longrightarrow> shader_stages_of ps = Inr stages \<Longrightarrow>
     (\<not> IsGraphics ps \<and> \<not> IsCompute ps \<longrightarrow>
        RHI_Pipeline_ctor env ps dsl =
          Inr \<lparr>m_pipeline_state = ps, m_resource_pipeline_layout = h,
               m_resource_pipeline = nullptr, vk_calls = [CreatePipelineLayout info]\<rparr>)
   \<and> (IsGraphics ps \<longrightarrow>
        RHI_Pipeline_ctor env ps dsl = create_graphics_pipeline env ps info h stages)
   \<and> (\<not> IsGraphics ps \<and> IsCompute ps \<longrightarrow>
        RHI_Pipeline_ctor env ps dsl = create_compute_pipeline env ps info h stages)"
  by (simp add: RHI_Pipeline_ctor_def create_pipeline_def)

text \<open>
  The amended C1 at two pipeline states: the one without shaders (both predicates false),
  and a graphics one for which \<open>IsCompute()\<close> is true as well, which is constructed.
\<close>

theorem ctor_branches_witness:
  "pipeline_layout vk_ok dsl_one = Inr (layout_info_one, 31)
   \<and> shader_stages_of pso_no_shaders = Inr []
   \<and> \<not> IsGraphics pso_no_shaders \<and> \<not> IsCompute pso_no_shaders
   \<and> RHI_Pipeline_ctor vk_ok pso_no_shaders dsl_one =
       Inr \<lparr>m_pipeline_state = pso_no_shaders, m_resource_pipeline_layout = 31,
            m_resource_pipeline = nullptr,
            vk_calls = [CreatePipelineLayout layout_info_one]\<rparr>
   \<and> shader_stages_of pso_both_flags = Inr stages_graphics
   \<and> IsGraphics pso_both_flags \<and> IsCompute pso_both_flags
   \<and> RHI_Pipeline_ctor vk_ok pso_both_flags dsl_one =
       Inr \<lparr>m_pipeline_state = pso_both_flags, m_resource_pipeline_layout = 31,
            m_resource_pipeline = 41,
            vk_calls = [CreatePipelineLayout layout_info_one,
                        CreateGraphicsPipelines graphics_info]\<rparr>"
proof -
  have f: "\<not> IsGraphics pso_no_shaders \<and> \<not> IsCompute pso_no_shaders"
    by (simp add: pso_no_shaders_def)
  have g: "IsGraphics pso_both_flags \<and> IsCompute pso_both_flags"
    by (simp add: pso_both_flags_def pso_graphics_def)
  from ctor_branches [OF pipeline_layout_one shader_stages_of_no_shaders] f
  have 1: "RHI_Pipeline_ctor vk_ok pso_no_shaders dsl_one =
       Inr \<lparr>m_pipeline_state = pso_no_shaders, m_resource_pipeline_layout = 31,
            m_resource_pipeline = nullptr,
            vk_calls = [CreatePipelineLayout layout_info_one]\<rparr>"
    by blast
  from ctor_branches [OF pipeline_layout_one shader_stages_of_both_flags] g
  have "RHI_Pipeline_ctor vk_ok pso_both_flags dsl_one =
     create_graphics_pipeline vk_ok pso_both_flags layout_info_one 31 stages_graphics"
    by blast
  then have 2: "RHI_Pipeline_ctor vk_ok pso_both_flags dsl_one =
       Inr \<lparr>m_pipeline_state = pso_both_flags, m_resource_pipeline_layout = 31,
            m_resource_pipeline = 41,
            vk_calls = [CreatePipelineLayout layout_info_one,
                        CreateGraphicsPipelines graphics_info]\<rparr>"
    by (simp add: create_graphics_pipeline_ok rasterizer_state_none)
  from pipeline_layout_one shader_stages_of_no_shaders f 1 shader_stages_of_both_flags g 2
  show ?thesis by blast
qed

subsection \<open>C2: the paths the D3D12 command list does not implement\<close>

text \<open>
  C2 says that every unimplemented path of the D3D12 command list, \<open>Submit\<close> and the
  memory barriers among them, fails fatally with the ``not implemented'' diagnostic. The
  functions of \<open>stubs_fail_not_implemented\<close> do; \<open>Submit\<close> and the three barrier functions
  have empty bodies and return, the list unchanged.
\<close>

theorem unimplemented_paths_return_silently:
  "Submit cl_ended = Inr cl_ended
   \<and> InsertMemoryBarrierImage cl_recording 5 1 0 1 1 0 2 = Inr cl_recording
   \<and> InsertMemoryBarrierImage_texture cl_recording tex_blit 0 1 1 0 2 = Inr cl_recording
   \<and> InsertMemoryBarrierImageWaitForWrite cl_recording tex_blit = Inr cl_recording"
  by (simp add: Submit_def InsertMemoryBarrierImage_def InsertMemoryBarrierImage_texture_def
      InsertMemoryBarrierImageWaitForWrite_def)

subsection \<open>C3: \<open>Submit\<close> on an ended list\<close>

text \<open>
  C3 says that \<open>Submit()\<close> moves a list from \<open>Ended\<close> to \<open>Submitted\<close>. On this backend a new
  list that is begun, ended and submitted is still \<open>Ended\<close> after \<open>Submit()\<close>, and the next
  \<open>Begin()\<close> fails on its assertion of \<open>Idle\<close>.
\<close>

theorem Submit_keeps_Ended:
  "Begin env_ok cl_new = Inr cl_recording
   \<and> End env_ok cl_recording = Inr cl_ended
   \<and> Submit cl_ended = Inr cl_ended
   \<and> m_state cl_ended = Ended
   \<and> Begin env_ok cl_ended = Inl (Assertion_Failed ''m_state == RHI_CommandListState::Idle'')"
  by (simp add: Begin_def Begin_wait_def End_def Submit_def SP_ASSERT_def concrete_defs
      nullptr_def)

subsection \<open>C4: operations outside \<open>Recording\<close>\<close>

text \<open>
  C4 says that every draw, dispatch, set, blit, copy and barrier operation fails fatally
  in every state other than \<open>Recording\<close>, \<open>Blit\<close> and \<open>Copy\<close> to a swap chain included. The
  operations of \<open>state_checked_operations\<close> do. \<open>Blit\<close> and \<open>Copy\<close> to a swap chain assert the
  flag and the dimensions of the source only, and the barriers assert nothing: on an
  \<open>Idle\<close> list, with a source that has the flag and the size of the swap chain, they
  return.
\<close>

theorem swapchain_Blit_Copy_outside_Recording:
  "m_state cl_new = Idle
   \<and> Blit_swapchain env_ok cl_new tex_blit swapchain_vga = Inr cl_new
   \<and> Copy_swapchain env_ok cl_new tex_blit swapchain_vga = Inr cl_new
   \<and> InsertMemoryBarrierImage_texture cl_new tex_blit 0 1 1 0 2 = Inr cl_new"
  by (simp add: Blit_swapchain_def Copy_swapchain_def InsertMemoryBarrierImage_texture_def
      SP_ASSERT_def concrete_defs)

subsection \<open>C5: \<open>Begin\<close> twice in a row\<close>

text \<open>
  C5: \<open>Begin()\<close> on a list that is already \<open>Recording\<close> fails fatally with an assertion
  (the one on the native handle if that is null, else the one on the state); so a
  \<open>Begin()\<close> that follows a \<open>Begin()\<close> that returned fails.
\<close>

theorem Begin_while_Recording_fails:
  "(m_state cl = Recording \<longrightarrow>
      Begin env cl = Inl (Assertion_Failed
        (if m_rhi_resource cl = nullptr then ''m_rhi_resource != nullptr''
         else ''m_state == RHI_CommandListState::Idle'')))
   \<and> (Begin env cl = Inr cl' \<longrightarrow>
        m_state cl' = Recording \<and> (\<exists>e. Begin env' cl' = Inl (Assertion_Failed e)))"
  by (auto simp add: Begin_def Begin_wait_def SP_ASSERT_def Let_def split: if_splits)

text \<open>C5 on the new list: the first \<open>Begin()\<close> returns, the second fails.\<close>

theorem Begin_while_Recording_fails_witness:
  "m_state cl_recording = Recording
   \<and> Begin env_ok cl_recording = Inl (Assertion_Failed ''m_state == RHI_CommandListState::Idle'')
   \<and> Begin env_ok cl_new = Inr cl_recording
   \<and> (\<exists>e. Begin env_ok cl_recording = Inl (Assertion_Failed e))"
proof -
  have r: "m_state cl_recording = Recording"
    by (simp add: cl_recording_def)
  have b: "Begin env_ok cl_new = Inr cl_recording"
    by (simp add: Begin_def Begin_wait_def SP_ASSERT_def concrete_defs nullptr_def)
  have n: "m_rhi_resource cl_recording \<noteq> nullptr"
    by (simp add: concrete_defs nullptr_def)
  from Begin_while_Recording_fails [of cl_recording env_ok cl_recording env_ok] r n
  have 1: "Begin env_ok cl_recording =
      Inl (Assertion_Failed ''m_state == RHI_CommandListState::Idle'')"
    by simp
  from Begin_while_Recording_fails [of cl_new env_ok cl_recording env_ok] b
  have 2: "\<exists>e. Begin env_ok cl_recording = Inl (Assertion_Failed e)"
    by blast
  from r 1 b 2 show ?thesis by blast
qed

subsection \<open>C6: the cached buffer ids across \<open>Begin\<close>\<close>



subsection \<open>C7: a run of \<open>SetBufferVertex\<close> with one buffer\<close>

text \<open>
  C7, as stated: for every sequence of \<open>SetBufferVertex(B)\<close> calls on a recording list the
  binding counter goes up exactly once. It does not when \<open>B\<close> is the cached binding as the
  sequence starts: on the list that has \<open>vb7\<close> bound, two more calls leave the counter, and
  the whole list, as they are.
\<close>

theorem SetBufferVertex_seq_already_bound:
  "m_state cl_bound7 = Recording
   \<and> SetBufferVertex_seq cl_bound7 vb7 [0, 0] = Inr cl_bound7"
  by (simp add: SetBufferVertex_def SP_ASSERT_def concrete_defs)

text \<open>
  C7, amended: for every non-empty sequence of \<open>SetBufferVertex(B)\<close> calls on a recording
  list, the sequence does what its first call does; the calls all return; afterwards the
  cached vertex-buffer id is the object id of \<open>B\<close>; and the binding counter has gone up
  once if that id differed from the cached id when the sequence started, and not at all
  if it was the cached id already.
\<close>

theorem SetBufferVertex_seq_binds_on_first_call_only:
  "m_state cl = Recording \<Longrightarrow>
     SetBufferVertex_seq cl vb (binding # rest) = SetBufferVertex cl vb binding
   \<and> (\<exists>cl'. SetBufferVertex_seq cl vb (binding # rest) = Inr cl'
        \<and> m_vertex_buffer_id cl' = vb_object_id vb
        \<and> m_rhi_bindings_buffer_vertex cl' =
            m_rhi_bindings_buffer_vertex cl
              + (if m_vertex_buffer_id cl = vb_object_id vb then 0 else 1))"
proof -
  assume r: "m_state cl = Recording"
  show ?thesis
  proof (cases "m_vertex_buffer_id cl = vb_object_id vb")
    case True
    with r have "SetBufferVertex cl vb binding = Inr cl"
      by (simp add: SetBufferVertex_def SP_ASSERT_def)
    moreover from r True have "SetBufferVertex_seq cl vb rest = Inr cl"
      by (rule SetBufferVertex_seq_bound)
    ultimately show ?thesis using True by simp
  next
    case False
    let ?c = "SetBufferVertex_bind cl vb"
    from r False have f: "SetBufferVertex cl vb binding = Inr ?c"
      by (simp add: SetBufferVertex_def SP_ASSERT_def)
    have "m_state ?c = Recording" "m_vertex_buffer_id ?c = vb_object_id vb"
      using r by (simp_all add: SetBufferVertex_bind_def)
    then have "SetBufferVertex_seq ?c vb rest = Inr ?c"
      by (rule SetBufferVertex_seq_bound)
    with f False show ?thesis
      by (simp add: SetBufferVertex_bind_def)
  qed
qed

text \<open>
  The amended C7 on the recording list with nothing bound: three calls with \<open>vb7\<close> bind it
  once.
\<close>

theorem SetBufferVertex_seq_binds_on_first_call_only_witness:
  "m_state cl_recording = Recording
   \<and> SetBufferVertex_seq cl_recording vb7 [0, 0, 0] = Inr cl_bound7
   \<and> m_vertex_buffer_id cl_bound7 = vb_object_id vb7
   \<and> m_rhi_bindings_buffer_vertex cl_bound7 = m_rhi_bindings_buffer_vertex cl_recording + 1"
proof -
  have r: "m_state cl_recording = Recording"
    by (simp add: cl_recording_def)
  have f: "SetBufferVertex cl_recording vb7 0 = Inr cl_bound7"
    by (simp add: SetBufferVertex_def SetBufferVertex_bind_def SP_ASSERT_def concrete_defs)
  from SetBufferVertex_seq_binds_on_first_call_only [OF r, of vb7 0 "[0, 0]"] f
  have "SetBufferVertex_seq cl_recording vb7 [0, 0, 0] = Inr cl_bound7"
    by simp
  with r show ?thesis by (simp add: concrete_defs)
qed

subsection \<open>C8: the descriptor-set layouts of the pipeline layout\<close>

text \<open>
  C8: every constructed pipeline object has created its pipeline layout first, with
  exactly three descriptor-set layouts: the caller's at index 0, the comparison-sampler
  layout at index 1 and the regular-sampler layout at index 2, none of them null; and
  when one of the three is null the constructor fails on the assertion
  \<open>layout != nullptr\<close>.
\<close>

theorem pipeline_layout_set_layouts:
  "(RHI_Pipeline_ctor env ps dsl = Inr p \<longrightarrow>
      (\<exists>info rest. vk_calls p = CreatePipelineLayout info # rest
         \<and> setLayoutCount info = 3
         \<and> pSetLayouts info = [dsl_rhi_resource dsl,
                                GetDescriptorSetLayout env sampler_comparison,
                                GetDescriptorSetLayout env sampler_regular]
         \<and> dsl_rhi_resource dsl \<noteq> nullptr
         \<and> GetDescriptorSetLayout env sampler_comparison \<noteq> nullptr
         \<and> GetDescriptorSetLayout env sampler_regular \<noteq> nullptr))
   \<and> (dsl_rhi_resource dsl = nullptr
        \<or> GetDescriptorSetLayout env sampler_comparison = nullptr
        \<or> GetDescriptorSetLayout env sampler_regular = nullptr \<longrightarrow>
      RHI_Pipeline_ctor env ps dsl = Inl (Assertion_Failed ''layout != nullptr''))"
proof (intro conjI impI)
  assume c: "RHI_Pipeline_ctor env ps dsl = Inr p"
  then obtain info h stages where l: "pipeline_layout env dsl = Inr (info, h)"
    and cp: "create_pipeline env ps info h stages = Inr p"
    by (auto simp add: RHI_Pipeline_ctor_def split: sum.splits prod.splits)
  from pipeline_layout_success [OF l] create_pipeline_calls [OF cp]
  show "\<exists>info rest. vk_calls p = CreatePipelineLayout info # rest
         \<and> setLayoutCount info = 3
         \<and> pSetLayouts info = [dsl_rhi_resource dsl,
                                GetDescriptorSetLayout env sampler_comparison,
                                GetDescriptorSetLayout env sampler_regular]
         \<and> dsl_rhi_resource dsl \<noteq> nullptr
         \<and> GetDescriptorSetLayout env sampler_comparison \<noteq> nullptr
         \<and> GetDescriptorSetLayout env sampler_regular \<noteq> nullptr"
    by (auto simp add: layouts_of_def)
next
  assume "dsl_rhi_resource dsl = nullptr
        \<or> GetDescriptorSetLayout env sampler_comparison = nullptr
        \<or> GetDescriptorSetLayout env sampler_regular = nullptr"
  then have "nullptr \<in> set (layouts_of env dsl)"
    by (auto simp add: layouts_of_def)
  then show "RHI_Pipeline_ctor env ps dsl = Inl (Assertion_Failed ''layout != nullptr'')"
    by (simp add: RHI_Pipeline_ctor_def pipeline_layout_def Let_def validate_layouts_null)
qed

text \<open>
  C8 on the graphics pipeline state: the object is constructed and its layout was created
  from the handles 20, 21 and 22 in this order; with a device that has no regular-sampler
  layout the constructor fails.
\<close>

theorem pipeline_layout_set_layouts_witness:
  "RHI_Pipeline_ctor vk_ok pso_graphics dsl_one = Inr pipeline_graphics
   \<and> (\<exists>info rest. vk_calls pipeline_graphics = CreatePipelineLayout info # rest
         \<and> setLayoutCount info = 3 \<and> pSetLayouts info = [20, 21, 22])
   \<and> GetDescriptorSetLayout (vk_ok\<lparr>GetDescriptorSetLayout := (\<lambda>r. nullptr)\<rparr>) sampler_regular
       = nullptr
   \<and> RHI_Pipeline_ctor (vk_ok\<lparr>GetDescriptorSetLayout := (\<lambda>r. nullptr)\<rparr>) pso_graphics dsl_one
       = Inl (Assertion_Failed ''layout != nullptr'')"
proof -
  from pipeline_layout_set_layouts [of vk_ok pso_graphics dsl_one pipeline_graphics]
    ctor_graphics
  have "\<exists>info rest. vk_calls pipeline_graphics = CreatePipelineLayout info # rest
         \<and> setLayoutCount info = 3
         \<and> pSetLayouts info = [dsl_rhi_resource dsl_one,
                                GetDescriptorSetLayout vk_ok sampler_comparison,
                                GetDescriptorSetLayout vk_ok sampler_regular]"
    by blast
  moreover have "[dsl_rhi_resource dsl_one, GetDescriptorSetLayout vk_ok sampler_comparison,
      GetDescriptorSetLayout vk_ok sampler_regular] = [20, 21, 22]"
    by (simp add: vk_ok_def dsl_one_def)
  ultimately
  have 1: "\<exists>info rest. vk_calls pipeline_graphics = CreatePipelineLayout info # rest
         \<and> setLayoutCount info = 3 \<and> pSetLayouts info = [20, 21, 22]"
    by simp
  have n: "GetDescriptorSetLayout (vk_ok\<lparr>GetDescriptorSetLayout := (\<lambda>r. nullptr)\<rparr>)
      sampler_regular = nullptr"
    by simp
  from pipeline_layout_set_layouts
    [of "vk_ok\<lparr>GetDescriptorSetLayout := (\<lambda>r. nullptr)\<rparr>" pso_graphics dsl_one
      pipeline_graphics] n
  have 2: "RHI_Pipeline_ctor (vk_ok\<lparr>GetDescriptorSetLayout := (\<lambda>r. nullptr)\<rparr>)
      pso_graphics dsl_one = Inl (Assertion_Failed ''layout != nullptr'')"
    by blast
  from ctor_graphics 1 n 2 show ?thesis by blast
qed

subsection \<open>C9: the depth bias\<close>



subsection \<open>C10: \<open>DrawIndexed\<close> and its instance count\<close>

text \<open>
  C10, as stated: a \<open>DrawIndexed\<close> on a recording list issues the native draw with instance
  count 1 and start instance 0. On this backend no native draw is issued: the pre-draw
  hook \<open>OnDraw\<close> is not implemented and ends the call.
\<close>

theorem DrawIndexed_issues_no_draw:
  "m_state cl_recording = Recording
   \<and> DrawIndexed cl_recording 3 0 0 5 = Inl (Assertion_Failed ''Function is not implemented'')"
  by (simp add: DrawIndexed_def OnDraw_def SP_ASSERT_def not_implemented_def concrete_defs)

text \<open>
  C10, amended: \<open>DrawIndexed\<close> does not read its \<open>instance_count\<close>: the call has the same
  outcome for every instance count. That outcome is a fatal assertion, on the state
  outside \<open>Recording\<close> and in \<open>OnDraw\<close> (``not implemented'') in \<open>Recording\<close>; the statements
  that follow \<open>OnDraw()\<close> make the native draw with instance count 1 and start instance 0
  and count it.
\<close>

theorem DrawIndexed_ignores_instance_count:
  "DrawIndexed cl index_count index_offset vertex_offset instance_count
     = DrawIndexed cl index_count index_offset vertex_offset instance_count'
   \<and> DrawIndexed cl index_count index_offset vertex_offset instance_count
     = Inl (Assertion_Failed
         (if m_state cl = Recording then not_implemented else state_is_recording))
   \<and> DrawIndexed_issue cl index_count index_offset vertex_offset instance_count
     = cl\<lparr>d3d12_calls :=
            d3d12_calls cl @ [DrawIndexedInstanced index_count 1 index_offset vertex_offset 0],
          m_rhi_draw := m_rhi_draw cl + 1\<rparr>"
  by (simp add: DrawIndexed_def DrawIndexed_issue_def OnDraw_def SP_ASSERT_def)

end
